theory Spec2Isabelle
  imports Complex_Main
begin

section \<open>Numbers and strings of the program\<close>

text \<open>
  The program computes with Python floats. Finite floats are modelled as exact reals
  (rounding and overflow are not modelled); the non-finite values that the program can
  meet through \<^verbatim>\<open>float("inf")\<close> in the bracket tables are kept as constructors of
  their own, with Python's arithmetic and comparisons on them written out.
\<close>

datatype pyfloat = Fin real | PInf | NInf | NaN

text \<open>Python's \<^verbatim>\<open>a - b\<close> on floats (IEEE: \<^verbatim>\<open>inf - inf\<close> is \<^verbatim>\<open>nan\<close>).\<close>

fun fsub :: "pyfloat \<Rightarrow> pyfloat \<Rightarrow> pyfloat" where
  "fsub (Fin a) (Fin b) = Fin (a - b)"
| "fsub NaN _ = NaN"
| "fsub _ NaN = NaN"
| "fsub PInf PInf = NaN"
| "fsub NInf NInf = NaN"
| "fsub PInf _ = PInf"
| "fsub NInf _ = NInf"
| "fsub (Fin a) PInf = NInf"
| "fsub (Fin a) NInf = PInf"

text \<open>
  Python's \<^verbatim>\<open>min(a, b)\<close> returns \<^verbatim>\<open>b\<close> if \<^verbatim>\<open>b < a\<close> and \<^verbatim>\<open>a\<close> otherwise; a comparison
  with \<^verbatim>\<open>nan\<close> is false. The first argument is the finite \<^verbatim>\<open>remaining\<close> here.
\<close>

fun py_min :: "real \<Rightarrow> pyfloat \<Rightarrow> pyfloat" where
  "py_min a (Fin b) = (if b < a then Fin b else Fin a)"
| "py_min a PInf = Fin a"
| "py_min a NInf = NInf"
| "py_min a NaN = Fin a"

text \<open>
  Strings are lists of 8-bit characters; \<^verbatim>\<open>str.lower\<close> and \<^verbatim>\<open>str.upper\<close> are modelled
  on the ASCII letters and leave every other character as it is.
\<close>

definition lower_char :: "char \<Rightarrow> char" where
  "lower_char c =
     (case map_of (zip ''ABCDEFGHIJKLMNOPQRSTUVWXYZ'' ''abcdefghijklmnopqrstuvwxyz'') c of
        Some d \<Rightarrow> d | None \<Rightarrow> c)"

definition upper_char :: "char \<Rightarrow> char" where
  "upper_char c =
     (case map_of (zip ''abcdefghijklmnopqrstuvwxyz'' ''ABCDEFGHIJKLMNOPQRSTUVWXYZ'') c of
        Some d \<Rightarrow> d | None \<Rightarrow> c)"

definition py_lower :: "string \<Rightarrow> string" where
  "py_lower s = map lower_char s"

definition py_upper :: "string \<Rightarrow> string" where
  "py_upper s = map upper_char s"

datatype py_error = KeyError | AttributeError

section \<open>Tax tables (2025)\<close>

type_synonym bracket = "pyfloat \<times> real"

definition FED_STANDARD_DEDUCTION_2025 :: "(string \<times> real) list" where
  "FED_STANDARD_DEDUCTION_2025 =
     [(''single'', 15000), (''mfj'', 30000), (''hoh'', 22500)]"

definition fed_single :: "bracket list" where
  "fed_single =
     [(Fin 11925, 0.10), (Fin 48475, 0.12), (Fin 103350, 0.22), (Fin 197300, 0.24),
      (Fin 250525, 0.32), (Fin 626350, 0.35), (PInf, 0.37)]"

definition fed_mfj :: "bracket list" where
  "fed_mfj =
     [(Fin 23850, 0.10), (Fin 96950, 0.12), (Fin 206700, 0.22), (Fin 394600, 0.24),
      (Fin 501050, 0.32), (Fin 751600, 0.35), (PInf, 0.37)]"

definition fed_hoh :: "bracket list" where
  "fed_hoh =
     [(Fin 17000, 0.10), (Fin 64850, 0.12), (Fin 103350, 0.22), (Fin 197300, 0.24),
      (Fin 250500, 0.32), (Fin 626350, 0.35), (PInf, 0.37)]"

definition FED_BRACKETS_2025 :: "(string \<times> bracket list) list" where
  "FED_BRACKETS_2025 = [(''single'', fed_single), (''mfj'', fed_mfj), (''hoh'', fed_hoh)]"

definition state_ca :: "bracket list" where
  "state_ca =
     [(Fin 10756, 0.01), (Fin 25500, 0.02), (Fin 40245, 0.04), (Fin 55866, 0.06),
      (Fin 70606, 0.08), (Fin 360659, 0.093), (Fin 432787, 0.103), (Fin 720110, 0.113),
      (PInf, 0.123)]"

definition state_ny :: "bracket list" where
  "state_ny =
     [(Fin 8500, 0.04), (Fin 11700, 0.045), (Fin 13900, 0.0525), (Fin 80650, 0.055),
      (Fin 215400, 0.06), (Fin 1077550, 0.0685), (Fin 5000000, 0.0965),
      (Fin 25000000, 0.103), (PInf, 0.109)]"

definition no_tax :: "bracket list" where
  "no_tax = [(PInf, 0.0)]"

definition STATE_BRACKETS_2025_SINGLE :: "(string \<times> bracket list) list" where
  "STATE_BRACKETS_2025_SINGLE =
     [(''CA'', state_ca), (''NY'', state_ny), (''WA'', no_tax), (''FL'', no_tax)]"

section \<open>Tax math\<close>

text \<open>
  The loop of \<^verbatim>\<open>calc_marginal_tax\<close> over the brackets, with its three variables
  \<^verbatim>\<open>tax\<close>, \<^verbatim>\<open>remaining\<close> and \<^verbatim>\<open>lower\<close>; the \<^verbatim>\<open>break\<close> returns the tax so far.
  A band that is not finite can only be \<^verbatim>\<open>-inf\<close>, for which \<^verbatim>\<open>band > 0\<close> is false.
\<close>

fun tax_loop :: "real \<Rightarrow> real \<Rightarrow> pyfloat \<Rightarrow> bracket list \<Rightarrow> real" where
  "tax_loop tax remaining lower [] = tax"
| "tax_loop tax remaining lower ((upper, rate) # rest) =
     (if remaining \<le> 0 then tax
      else (case py_min remaining (fsub upper lower) of
              Fin band \<Rightarrow>
                (if 0 < band
                 then tax_loop (tax + band * rate) (remaining - band) upper rest
                 else tax_loop tax remaining upper rest)
            | _ \<Rightarrow> tax_loop tax remaining upper rest))"

definition calc_marginal_tax :: "real \<Rightarrow> bracket list \<Rightarrow> real" where
  "calc_marginal_tax taxable_income brackets =
     tax_loop 0 (max 0 taxable_income) (Fin 0) brackets"

record fed_result =
  standard_deduction :: real
  taxable_income :: real
  federal_tax :: real

definition estimate_federal_tax_2025 :: "real \<Rightarrow> string \<Rightarrow> py_error + fed_result" where
  "estimate_federal_tax_2025 gross_annual filing_status =
     (let fs = py_lower filing_status;
          fs = (if fs \<notin> set (map fst FED_BRACKETS_2025) then ''single'' else fs)
      in case map_of FED_STANDARD_DEDUCTION_2025 fs of
           None \<Rightarrow> Inl KeyError
         | Some ded \<Rightarrow>
             (let taxable = max 0 (gross_annual - ded)
              in case map_of FED_BRACKETS_2025 fs of
                   None \<Rightarrow> Inl KeyError
                 | Some brackets \<Rightarrow>
                     Inr \<lparr>standard_deduction = ded, taxable_income = taxable,
                          federal_tax = calc_marginal_tax taxable brackets\<rparr>))"

record state_result =
  state_taxable_income :: real
  state_tax :: real

definition estimate_state_tax_2025_single :: "real \<Rightarrow> string \<Rightarrow> state_result" where
  "estimate_state_tax_2025_single gross_annual state_code =
     (let code = py_upper state_code;
          brackets = (case map_of STATE_BRACKETS_2025_SINGLE code of
                        Some b \<Rightarrow> b | None \<Rightarrow> [(PInf, 0.0)]);
          taxable = max 0 gross_annual
      in \<lparr>state_taxable_income = taxable,
          state_tax = calc_marginal_tax taxable brackets\<rparr>)"

definition annualize :: "real \<Rightarrow> string \<Rightarrow> real" where
  "annualize amount frequency =
     (let freq = py_lower frequency
      in if freq = ''weekly'' then amount * 52
         else if freq = ''bi-weekly'' \<or> freq = ''biweekly'' then amount * 26
         else if freq = ''monthly'' then amount * 12
         else amount)"


section \<open>Request payloads\<close>

text \<open>
  A request body after \<^verbatim>\<open>request.get_json(force=True)\<close>: any JSON value. An object is
  the list of its key/value pairs, read with \<open>map_of\<close>; a number is a finite number. A
  body that is not JSON is refused by the framework before the route runs and is not
  modelled.
\<close>

datatype json =
    JNull
  | JBool bool
  | JNum real
  | JStr string
  | JArr "json list"
  | JObj "(string \<times> json) list"

text \<open>Python's truth value of a parsed JSON value, as used by \<^verbatim>\<open>x or default\<close>.\<close>

fun truthy :: "json \<Rightarrow> bool" where
  "truthy JNull = False"
| "truthy (JBool b) = b"
| "truthy (JNum x) = (x \<noteq> 0)"
| "truthy (JStr s) = (s \<noteq> [])"
| "truthy (JArr xs) = (xs \<noteq> [])"
| "truthy (JObj kvs) = (kvs \<noteq> [])"

definition py_or :: "json \<Rightarrow> json \<Rightarrow> json" where
  "py_or a b = (if truthy a then a else b)"

text \<open>\<^verbatim>\<open>payload.get(key, default)\<close>: only a dict has the method.\<close>

fun dict_get :: "json \<Rightarrow> string \<Rightarrow> json \<Rightarrow> py_error + json" where
  "dict_get (JObj kvs) key dflt = Inr (case map_of kvs key of Some v \<Rightarrow> v | None \<Rightarrow> dflt)"
| "dict_get _ key dflt = Inl AttributeError"

text \<open>
  \<^verbatim>\<open>float(v)\<close> under \<^verbatim>\<open>except (TypeError, ValueError)\<close>: \<open>None\<close> stands for either
  exception. How Python reads a string as a float is the parameter \<open>float_of_str\<close>.
\<close>

fun py_float :: "(string \<Rightarrow> real option) \<Rightarrow> json \<Rightarrow> real option" where
  "py_float float_of_str (JNum x) = Some x"
| "py_float float_of_str (JBool b) = Some (if b then 1 else 0)"
| "py_float float_of_str (JStr s) = float_of_str s"
| "py_float float_of_str JNull = None"
| "py_float float_of_str (JArr xs) = None"
| "py_float float_of_str (JObj kvs) = None"

text \<open>String methods called on a payload value: only a \<^verbatim>\<open>str\<close> has them.\<close>

fun str_lower :: "json \<Rightarrow> py_error + string" where
  "str_lower (JStr s) = Inr (py_lower s)"
| "str_lower _ = Inl AttributeError"

fun str_upper :: "json \<Rightarrow> py_error + string" where
  "str_upper (JStr s) = Inr (py_upper s)"
| "str_upper _ = Inl AttributeError"

definition is_space :: "char \<Rightarrow> bool" where
  "is_space c = (c \<in> set [CHR 0x09, CHR 0x0A, CHR 0x0B, CHR 0x0C, CHR 0x0D,
                           CHR 0x1C, CHR 0x1D, CHR 0x1E, CHR 0x1F, CHR 0x20])"

definition py_strip :: "string \<Rightarrow> string" where
  "py_strip s = rev (dropWhile is_space (rev (dropWhile is_space s)))"

text \<open>\<^verbatim>\<open>v.strip()[:60]\<close>\<close>

fun str_strip60 :: "json \<Rightarrow> py_error + string" where
  "str_strip60 (JStr s) = Inr (take 60 (py_strip s))"
| "str_strip60 _ = Inl AttributeError"

section \<open>The estimate route\<close>

record estimate_response =
  gross_annual :: real
  filing_status :: string
  state :: string
  federal :: fed_result
  state_detail :: state_result
  total_tax :: real
  net_annual :: real

text \<open>
  Lines 230 to 246 of \<^verbatim>\<open>api_estimate\<close>: the estimate from the three values read from
  the request.
\<close>

definition estimate :: "real \<Rightarrow> string \<Rightarrow> string \<Rightarrow> py_error + estimate_response" where
  "estimate gross fstatus st_code =
     (case estimate_federal_tax_2025 gross fstatus of
        Inl e \<Rightarrow> Inl e
      | Inr fed \<Rightarrow>
          (let st = estimate_state_tax_2025_single gross st_code;
               total = federal_tax fed + state_tax st;
               net = max 0 (gross - total)
           in Inr \<lparr>gross_annual = gross, filing_status = fstatus, state = st_code,
                   federal = fed, state_detail = st, total_tax = total, net_annual = net\<rparr>))"

text \<open>Lines 221 to 228, then the estimate.\<close>

definition api_estimate :: "(string \<Rightarrow> real option) \<Rightarrow> json \<Rightarrow> py_error + estimate_response" where
  "api_estimate float_of_str body =
     (let payload = py_or body (JObj [])
      in case dict_get payload ''gross_annual'' (JNum 0) of
           Inl e \<Rightarrow> Inl e
         | Inr g \<Rightarrow>
        (let gross = (case py_float float_of_str g of Some x \<Rightarrow> x | None \<Rightarrow> 0)
         in case dict_get payload ''filing_status'' JNull of
              Inl e \<Rightarrow> Inl e
            | Inr fs \<Rightarrow>
           (case str_lower (py_or fs (JStr ''single'')) of
              Inl e \<Rightarrow> Inl e
            | Inr fstatus \<Rightarrow>
           (case dict_get payload ''state'' JNull of
              Inl e \<Rightarrow> Inl e
            | Inr sc \<Rightarrow>
           (case str_upper (py_or sc (JStr ''WA'')) of
              Inl e \<Rightarrow> Inl e
            | Inr st_code \<Rightarrow> estimate gross fstatus st_code)))))"

section \<open>The stored document and the net income routes\<close>

record entry =
  entry_id :: int
  ts :: string
  label :: string
  net_amount :: real
  frequency :: string
  net_annual_equivalent :: real
  ts_edited :: "string option"

record activity_item =
  log_ts :: string
  message :: string

text \<open>
  The document in \<^verbatim>\<open>data/finance.json\<close>; a key that is absent is \<open>None\<close>. The file
  itself may be absent: the store is a \<open>finance option\<close>. The helpers \<^verbatim>\<open>_load_data\<close>,
  \<^verbatim>\<open>_save_data\<close>, \<^verbatim>\<open>_now_iso\<close> and \<^verbatim>\<open>_log_activity\<close> keep their names without the
  leading underscore; the key \<^verbatim>\<open>id\<close> of an entry is the field \<open>entry_id\<close>, and the keys
  \<^verbatim>\<open>ts\<close> and \<^verbatim>\<open>message\<close> of an activity item are \<open>log_ts\<close> and \<open>message\<close>.
\<close>

record finance =
  net_income_entries :: "entry list option"
  activity :: "activity_item list option"

type_synonym store = "finance option"

text \<open>
  What a request reads from outside: the clock (\<open>now_ms\<close> for the entry id, \<open>now_iso k\<close>
  for the \<open>k\<close>-th call of \<^verbatim>\<open>_now_iso\<close> in the request), Python's reading of a string
  as a float, and the format \<^verbatim>\<open>{:,.2f}\<close> of an amount.
\<close>

record req_env =
  float_of_str :: "string \<Rightarrow> real option"
  format_amount :: "real \<Rightarrow> string"
  now_ms :: int
  now_iso :: "nat \<Rightarrow> string"

definition load_data :: "store \<Rightarrow> finance \<times> store" where
  "load_data s =
     (case s of
        None \<Rightarrow> (let d = \<lparr>net_income_entries = Some [], activity = Some []\<rparr> in (d, Some d))
      | Some d \<Rightarrow> (d, Some d))"

definition save_data :: "finance \<Rightarrow> store" where
  "save_data d = Some d"

text \<open>Python's \<^verbatim>\<open>xs[-n:]\<close>.\<close>

definition last_n :: "nat \<Rightarrow> 'a list \<Rightarrow> 'a list" where
  "last_n n xs = drop (length xs - n) xs"

definition log_activity :: "finance \<Rightarrow> string \<Rightarrow> string \<Rightarrow> finance" where
  "log_activity d stamp msg =
     (let acts = (case activity d of None \<Rightarrow> [] | Some a \<Rightarrow> a)
      in d\<lparr>activity := Some (last_n 50 (acts @ [\<lparr>log_ts = stamp, message = msg\<rparr>]))\<rparr>)"

definition known_frequencies :: "string list" where
  "known_frequencies = [''weekly'', ''bi-weekly'', ''biweekly'', ''monthly'', ''yearly'']"

datatype entry_response = EntryOk entry | EntryError nat string


text \<open>
  \<^verbatim>\<open>latest\<close> is the last dict of the list inside \<^verbatim>\<open>data\<close>; its in-place update is the
  list with its last element replaced.
\<close>

definition api_update_latest_net_income ::
  "req_env \<Rightarrow> json \<Rightarrow> store \<Rightarrow> (py_error + entry_response) \<times> store" where
  "api_update_latest_net_income env body s =
     (let payload = py_or body (JObj []);
          (d, s1) = load_data s;
          entries = (case net_income_entries d of None \<Rightarrow> [] | Some es \<Rightarrow> es)
      in if entries = [] then (Inr (EntryError 400 ''No net income entry to edit.''), s1)
         else
        (let latest = last entries
         in case dict_get payload ''label'' JNull of
              Inl e \<Rightarrow> (Inl e, s1)
            | Inr l \<Rightarrow>
           (case str_strip60 (py_or (py_or l (JStr (label latest))) (JStr ''Net income'')) of
              Inl e \<Rightarrow> (Inl e, s1)
            | Inr lbl \<Rightarrow>
           (case dict_get payload ''net_amount'' (JNum (net_amount latest)) of
              Inl e \<Rightarrow> (Inl e, s1)
            | Inr a \<Rightarrow>
           (let amount = (case py_float (float_of_str env) a of
                            Some x \<Rightarrow> x | None \<Rightarrow> net_amount latest)
            in case dict_get payload ''frequency'' JNull of
                 Inl e \<Rightarrow> (Inl e, s1)
               | Inr f \<Rightarrow>
              (case str_lower (py_or (py_or f (JStr (frequency latest))) (JStr ''monthly'')) of
                 Inl e \<Rightarrow> (Inl e, s1)
               | Inr freq0 \<Rightarrow>
              (let freq = (if freq0 \<notin> set known_frequencies then ''monthly'' else freq0);
                   latest1 = latest\<lparr>label := lbl, net_amount := amount, frequency := freq,
                               net_annual_equivalent := annualize amount freq,
                               ts_edited := Some (now_iso env 0)\<rparr>;
                   d1 = d\<lparr>net_income_entries := Some (butlast entries @ [latest1])\<rparr>;
                   d2 = log_activity d1 (now_iso env 1)
                          (''Edited latest net income: '' @ format_amount env amount
                             @ '' ('' @ freq @ '')'')
               in (Inr (EntryOk latest1), save_data d2))))))))"


section \<open>Reference definitions following the specification\<close>

text \<open>
  The Bracket Table invariant: the band edges increase strictly, starting from the lower
  edge \<open>0\<close> of the first band, and the table ends in the bracket whose upper bound is
  infinity. A rate is a fraction in \<open>[0, 1)\<close>.
\<close>

fun bounds_ok :: "real \<Rightarrow> bracket list \<Rightarrow> bool" where
  "bounds_ok lo [] = False"
| "bounds_ok lo ((Fin u, r) # rest) = (lo < u \<and> bounds_ok u rest)"
| "bounds_ok lo ((PInf, r) # rest) = (rest = [])"
| "bounds_ok lo ((NInf, r) # rest) = False"
| "bounds_ok lo ((NaN, r) # rest) = False"

definition rates_ok :: "bracket list \<Rightarrow> bool" where
  "rates_ok brackets = list_all (\<lambda>(u, r). 0 \<le> r \<and> r < 1) brackets"

definition valid_table :: "bracket list \<Rightarrow> bool" where
  "valid_table brackets = (bounds_ok 0 brackets \<and> rates_ok brackets)"

text \<open>
  Standard marginal-bracket taxation, as a closed form: the part of the income \<open>x\<close> that
  lies in the band from \<open>lo\<close> to \<open>hi\<close> is taxed at that band's rate.
\<close>

fun income_in_band :: "real \<Rightarrow> pyfloat \<Rightarrow> pyfloat \<Rightarrow> real" where
  "income_in_band x (Fin lo) (Fin hi) = max 0 (min x hi - lo)"
| "income_in_band x (Fin lo) PInf = max 0 (x - lo)"
| "income_in_band x _ _ = 0"

fun marginal_bands :: "pyfloat \<Rightarrow> real \<Rightarrow> bracket list \<Rightarrow> real" where
  "marginal_bands lo x [] = 0"
| "marginal_bands lo x ((hi, rate) # rest) =
     income_in_band x lo hi * rate + marginal_bands hi x rest"

definition standard_marginal_tax :: "real \<Rightarrow> bracket list \<Rightarrow> real" where
  "standard_marginal_tax x brackets = marginal_bands (Fin 0) x brackets"

text \<open>
  The algorithm in the words of the specification (section 4.2), over the reals extended
  by infinity: the band of the infinite bracket is all that remains.
\<close>

fun spec_band :: "real \<Rightarrow> pyfloat \<Rightarrow> pyfloat \<Rightarrow> real" where
  "spec_band remaining (Fin lower_edge) (Fin upper) = min remaining (upper - lower_edge)"
| "spec_band remaining (Fin lower_edge) PInf = remaining"
| "spec_band remaining _ _ = 0"

fun spec_walk :: "real \<Rightarrow> real \<Rightarrow> pyfloat \<Rightarrow> bracket list \<Rightarrow> real" where
  "spec_walk acc remaining lower_edge [] = acc"
| "spec_walk acc remaining lower_edge ((upper, rate) # rest) =
     (if remaining = 0 then acc
      else (let band = spec_band remaining lower_edge upper
            in if 0 < band
               then spec_walk (acc + band * rate) (remaining - band) upper rest
               else spec_walk acc remaining upper rest))"

definition spec_compute :: "real \<Rightarrow> bracket list \<Rightarrow> real" where
  "spec_compute x brackets = spec_walk 0 (if x < 0 then 0 else x) (Fin 0) brackets"

definition max_rate :: "bracket list \<Rightarrow> real" where
  "max_rate brackets = Max (set (map snd brackets))"

section \<open>Predicates on request fields, and example requests\<close>






text \<open>
  An environment for the example requests: their numbers are JSON numbers, so the reading
  of strings as floats is never asked for a value; the clock stands still.
\<close>

definition unparsed :: "string \<Rightarrow> real option" where
  "unparsed s = None"







section \<open>The tables of the program are bracket tables\<close>

lemma fed_single_valid: "valid_table fed_single"
  by (simp add: valid_table_def rates_ok_def fed_single_def)

lemma fed_mfj_valid: "valid_table fed_mfj"
  by (simp add: valid_table_def rates_ok_def fed_mfj_def)

lemma fed_hoh_valid: "valid_table fed_hoh"
  by (simp add: valid_table_def rates_ok_def fed_hoh_def)

lemma state_ca_valid: "valid_table state_ca"
  by (simp add: valid_table_def rates_ok_def state_ca_def)

lemma state_ny_valid: "valid_table state_ny"
  by (simp add: valid_table_def rates_ok_def state_ny_def)

lemma no_tax_valid: "valid_table no_tax"
  by (simp add: valid_table_def rates_ok_def no_tax_def)

section \<open>The loop and the closed form\<close>

lemma tax_loop_done: "remaining \<le> 0 \<Longrightarrow> tax_loop tax remaining lower bs = tax"
  by (cases bs) auto

lemma spec_walk_done: "spec_walk acc 0 lower bs = acc"
  by (cases bs) auto

lemma marginal_bands_below:
  "bounds_ok lo bs \<Longrightarrow> x \<le> lo \<Longrightarrow> marginal_bands (Fin lo) x bs = 0"
proof (induction lo bs rule: bounds_ok.induct)
  case (2 lo u r rest)
  then show ?case by simp
qed simp_all

text \<open>
  The loop invariant: with the lower edge at \<open>lo\<close> and \<open>rem\<close> still untaxed, the income is
  \<open>lo + rem\<close>, and the loop adds the tax of the bands above \<open>lo\<close>.
\<close>

lemma tax_loop_standard:
  "bounds_ok lo bs \<Longrightarrow> 0 \<le> rem \<Longrightarrow>
   tax_loop tax rem (Fin lo) bs = tax + marginal_bands (Fin lo) (lo + rem) bs"
proof (induction lo bs arbitrary: tax rem rule: bounds_ok.induct)
  case (2 lo u r rest)
  then have lu: "lo < u" and ok: "bounds_ok u rest" by simp_all
  show ?case
  proof (cases "rem \<le> 0")
    case True
    with 2 have "rem = 0" by simp
    then show ?thesis using lu ok by (simp add: marginal_bands_below)
  next
    case False
    show ?thesis
    proof (cases "u - lo < rem")
      case True
      have "tax_loop (tax + (u - lo) * r) (rem - (u - lo)) (Fin u) rest =
        tax + (u - lo) * r + marginal_bands (Fin u) (u + (rem - (u - lo))) rest"
        using True by (intro "2.IH"[OF ok]) simp
      moreover have "u + (rem - (u - lo)) = lo + rem" by simp
      ultimately show ?thesis using True False lu by (simp add: min_def max_def)
    next
      case last_band: False
      have "marginal_bands (Fin u) (lo + rem) rest = 0"
        using last_band ok by (intro marginal_bands_below) auto
      then show ?thesis
        using last_band False lu by (simp add: tax_loop_done min_def max_def)
    qed
  qed
next
  case (3 lo r rest)
  then show ?case by (simp add: tax_loop_done max_def)
qed simp_all

lemma calc_standard:
  assumes ok: "bounds_ok 0 bs"
  shows "calc_marginal_tax x bs = standard_marginal_tax x bs"
proof (cases "0 \<le> x")
  case True
  then show ?thesis using tax_loop_standard[OF ok, of x 0]
    by (simp add: calc_marginal_tax_def standard_marginal_tax_def max_def)
next
  case False
  have "marginal_bands (Fin 0) x bs = 0"
    using ok False by (intro marginal_bands_below) auto
  moreover have "marginal_bands (Fin 0) 0 bs = 0"
    using ok by (intro marginal_bands_below) auto
  ultimately show ?thesis using False tax_loop_standard[OF ok, of 0 0]
    by (simp add: calc_marginal_tax_def standard_marginal_tax_def max_def)
qed

lemma tax_loop_spec_walk:
  "bounds_ok lo bs \<Longrightarrow> 0 \<le> rem \<Longrightarrow>
   tax_loop tax rem (Fin lo) bs = spec_walk tax rem (Fin lo) bs"
proof (induction lo bs arbitrary: tax rem rule: bounds_ok.induct)
  case (2 lo u r rest)
  then have lu: "lo < u" and ok: "bounds_ok u rest" by simp_all
  have ih: "\<And>t m. 0 \<le> m \<Longrightarrow> tax_loop t m (Fin u) rest = spec_walk t m (Fin u) rest"
    using "2.IH"[OF ok] by simp
  show ?case
  proof (cases "rem = 0")
    case True
    then show ?thesis by simp
  next
    case False
    with 2 have pos: "0 < rem" by simp
    show ?thesis
    proof (cases "u - lo < rem")
      case True
      then show ?thesis
        using pos lu ih[of "rem - (u - lo)"] by (simp add: min_def Let_def)
    next
      case False
      then show ?thesis
        using pos lu by (simp add: min_def Let_def tax_loop_done spec_walk_done)
    qed
  qed
next
  case (3 lo r rest)
  then show ?case by (simp add: tax_loop_done)
qed simp_all

lemma calc_spec_compute:
  "bounds_ok 0 bs \<Longrightarrow> calc_marginal_tax x bs = spec_compute x bs"
  using tax_loop_spec_walk[of 0 bs "max 0 x" 0]
  by (simp add: calc_marginal_tax_def spec_compute_def max_def)

section \<open>Properties of the closed form\<close>

lemma income_in_band_mono: "x \<le> y \<Longrightarrow> income_in_band x lo hi \<le> income_in_band y lo hi"
  by (cases "(x, lo, hi)" rule: income_in_band.cases) auto

lemma income_in_band_nonneg: "0 \<le> income_in_band x lo hi"
  by (cases "(x, lo, hi)" rule: income_in_band.cases) auto

lemma marginal_bands_mono:
  "list_all (\<lambda>(u, r). 0 \<le> r) bs \<Longrightarrow> x \<le> y \<Longrightarrow>
   marginal_bands lo x bs \<le> marginal_bands lo y bs"
proof (induction bs arbitrary: lo)
  case Nil
  then show ?case by simp
next
  case (Cons b bs)
  obtain hi r where b: "b = (hi, r)" by (cases b)
  with Cons.prems have r: "0 \<le> r" and rest: "list_all (\<lambda>(u, r). 0 \<le> r) bs" by simp_all
  have "income_in_band x lo hi * r \<le> income_in_band y lo hi * r"
    using income_in_band_mono[OF Cons.prems(2)] r by (rule mult_right_mono)
  moreover have "marginal_bands hi x bs \<le> marginal_bands hi y bs"
    using Cons.IH[OF rest Cons.prems(2)] .
  ultimately show ?case using b by simp
qed

lemma marginal_bands_nonneg:
  "list_all (\<lambda>(u, r). 0 \<le> r) bs \<Longrightarrow> 0 \<le> marginal_bands lo x bs"
proof (induction bs arbitrary: lo)
  case Nil
  then show ?case by simp
next
  case (Cons b bs)
  obtain hi r where b: "b = (hi, r)" by (cases b)
  with Cons.prems have r: "0 \<le> r" and rest: "list_all (\<lambda>(u, r). 0 \<le> r) bs" by simp_all
  have "0 \<le> income_in_band x lo hi * r"
    using income_in_band_nonneg r by (rule mult_nonneg_nonneg)
  then show ?case using b Cons.IH[OF rest] by simp
qed

lemma marginal_bands_le:
  "bounds_ok lo bs \<Longrightarrow> list_all (\<lambda>(u, r). r \<le> M) bs \<Longrightarrow> 0 \<le> M \<Longrightarrow>
   marginal_bands (Fin lo) x bs \<le> max 0 (x - lo) * M"
proof (induction lo bs rule: bounds_ok.induct)
  case (2 lo u r rest)
  then have lu: "lo < u" and ok: "bounds_ok u rest" and r: "r \<le> M"
    and rest: "list_all (\<lambda>(u, r). r \<le> M) rest" by simp_all
  have a: "max 0 (min x u - lo) * r \<le> max 0 (min x u - lo) * M"
    using r by (intro mult_left_mono) simp_all
  have b: "marginal_bands (Fin u) x rest \<le> max 0 (x - u) * M"
    using "2.IH"[OF ok rest "2.prems"(3)] .
  have c: "max 0 (min x u - lo) + max 0 (x - u) = max 0 (x - lo)"
    using lu by (simp add: max_def min_def)
  have "max 0 (min x u - lo) * M + max 0 (x - u) * M = max 0 (x - lo) * M"
    using c by (simp add: distrib_right[symmetric])
  then show ?case using a b by simp
next
  case (3 lo r rest)
  then have "max 0 (x - lo) * r \<le> max 0 (x - lo) * M"
    by (intro mult_left_mono) simp_all
  with 3 show ?case by simp
qed simp_all

lemma rates_ok_nonneg: "rates_ok bs \<Longrightarrow> list_all (\<lambda>(u, r). 0 \<le> r) bs"
  unfolding rates_ok_def by (induction bs) auto

lemma rates_le_max_rate: "list_all (\<lambda>(u, r). r \<le> max_rate bs) bs"
  unfolding max_rate_def list_all_iff by (force intro!: Max_ge)

lemma bounds_ok_nonempty: "bounds_ok lo bs \<Longrightarrow> bs \<noteq> []"
  by (cases bs) auto

lemma max_rate_nonneg:
  assumes ok: "rates_ok bs" and ne: "bs \<noteq> []"
  shows "0 \<le> max_rate bs"
proof -
  from ne obtain u r rest where bs: "bs = (u, r) # rest" by (cases bs) auto
  with ok have "0 \<le> r" by (simp add: rates_ok_def)
  moreover have "r \<le> max_rate bs" using bs by (simp add: max_rate_def)
  ultimately show ?thesis by simp
qed

lemma calc_nonneg:
  assumes "valid_table bs"
  shows "0 \<le> calc_marginal_tax x bs"
proof -
  from assms have ok: "bounds_ok 0 bs" and rt: "rates_ok bs"
    by (simp_all add: valid_table_def)
  show ?thesis
    using marginal_bands_nonneg[OF rates_ok_nonneg[OF rt]]
    by (simp add: calc_standard[OF ok] standard_marginal_tax_def)
qed

lemma calc_zero:
  assumes "valid_table bs" and "x \<le> 0"
  shows "calc_marginal_tax x bs = 0"
proof -
  from assms have ok: "bounds_ok 0 bs" by (simp add: valid_table_def)
  show ?thesis
    using marginal_bands_below[OF ok assms(2)]
    by (simp add: calc_standard[OF ok] standard_marginal_tax_def)
qed

section \<open>The marginal tax calculator\<close>

text \<open>
  C1. For every taxable income and every bracket table that satisfies the Bracket Table
  invariant, \<open>calc_marginal_tax\<close> computes the banded accumulation that the
  specification describes (clamp the income at zero, walk the brackets in ascending
  order, take the band \<open>min(remaining, upper - lower_edge)\<close>, add \<open>band * rate\<close> when the
  band is positive, stop when nothing remains), and its result is the tax of standard
  marginal-bracket taxation: each band's rate on the part of the income inside the band.
\<close>

theorem calc_marginal_tax_banded:
  assumes "valid_table bs"
  shows "calc_marginal_tax x bs = spec_compute x bs \<and>
         calc_marginal_tax x bs = standard_marginal_tax x bs"
proof -
  from assms have ok: "bounds_ok 0 bs" by (simp add: valid_table_def)
  show ?thesis using calc_spec_compute[OF ok] calc_standard[OF ok] by simp
qed

theorem calc_marginal_tax_banded_witness:
  "valid_table fed_single \<and>
   calc_marginal_tax 45000 fed_single = spec_compute 45000 fed_single \<and>
   calc_marginal_tax 45000 fed_single = standard_marginal_tax 45000 fed_single \<and>
   standard_marginal_tax 45000 fed_single = 5161.5"
proof -
  have v: "valid_table fed_single" by (rule fed_single_valid)
  have "standard_marginal_tax 45000 fed_single = 5161.5"
    by (simp add: standard_marginal_tax_def fed_single_def)
  then show ?thesis using v calc_marginal_tax_banded[OF v, of 45000] by simp
qed

text \<open>
  C2. For a fixed bracket table that satisfies the Bracket Table invariant, the computed
  tax is monotonically non-decreasing in the taxable income: \<open>x1 \<le> x2\<close> gives
  \<open>compute x1 \<le> compute x2\<close> (for all incomes, the non-negative ones among them).
\<close>

theorem calc_marginal_tax_monotone:
  assumes "valid_table bs" and "x1 \<le> x2"
  shows "calc_marginal_tax x1 bs \<le> calc_marginal_tax x2 bs"
proof -
  from assms(1) have ok: "bounds_ok 0 bs" and rt: "rates_ok bs"
    by (simp_all add: valid_table_def)
  have "marginal_bands (Fin 0) x1 bs \<le> marginal_bands (Fin 0) x2 bs"
    using rates_ok_nonneg[OF rt] assms(2) by (rule marginal_bands_mono)
  then show ?thesis by (simp add: calc_standard[OF ok] standard_marginal_tax_def)
qed

theorem calc_marginal_tax_monotone_witness:
  "valid_table state_ca \<and> (50000::real) \<le> 60000 \<and>
   calc_marginal_tax 50000 state_ca \<le> calc_marginal_tax 60000 state_ca"
proof -
  have v: "valid_table state_ca" by (rule state_ca_valid)
  have le: "(50000::real) \<le> 60000" by simp
  show ?thesis using v le calc_marginal_tax_monotone[OF v le] by simp
qed

text \<open>
  C3, as amended. For every taxable income and every bracket table that satisfies the
  Bracket Table invariant, the computed tax is at most the income clamped at zero times
  the maximum rate of the table; for a taxable income \<open>\<ge> 0\<close> that is the income times the
  maximum rate. For a negative income the tax is \<open>0\<close>, which is above the negative
  product of the claim as it was stated.
\<close>

theorem calc_marginal_tax_le_max_rate:
  assumes "valid_table bs"
  shows "calc_marginal_tax x bs \<le> max 0 x * max_rate bs"
proof -
  from assms have ok: "bounds_ok 0 bs" and rt: "rates_ok bs"
    by (simp_all add: valid_table_def)
  have "0 \<le> max_rate bs" using rt bounds_ok_nonempty[OF ok] by (rule max_rate_nonneg)
  then have "marginal_bands (Fin 0) x bs \<le> max 0 (x - 0) * max_rate bs"
    using ok rates_le_max_rate by (intro marginal_bands_le)
  then show ?thesis by (simp add: calc_standard[OF ok] standard_marginal_tax_def)
qed

theorem calc_marginal_tax_le_max_rate_witness:
  "valid_table fed_single \<and>
   calc_marginal_tax 45000 fed_single \<le> max 0 45000 * max_rate fed_single"
proof -
  have v: "valid_table fed_single" by (rule fed_single_valid)
  show ?thesis using v calc_marginal_tax_le_max_rate[OF v, of 45000] by simp
qed

theorem calc_marginal_tax_negative_income_counterexample:
  "valid_table fed_single \<and>
   \<not> calc_marginal_tax (- 1000) fed_single \<le> (- 1000) * max_rate fed_single"
proof -
  have "calc_marginal_tax (- 1000) fed_single = 0"
    by (simp add: calc_marginal_tax_def fed_single_def)
  moreover have "max_rate fed_single = 0.37"
    by (simp add: max_rate_def fed_single_def)
  ultimately show ?thesis using fed_single_valid by simp
qed


section \<open>The federal and the state estimator\<close>

lemma estimate_federal_cases:
  "estimate_federal_tax_2025 g fs =
     (if py_lower fs = ''mfj''
      then Inr \<lparr>standard_deduction = 30000, taxable_income = max 0 (g - 30000),
                federal_tax = calc_marginal_tax (max 0 (g - 30000)) fed_mfj\<rparr>
      else if py_lower fs = ''hoh''
      then Inr \<lparr>standard_deduction = 22500, taxable_income = max 0 (g - 22500),
                federal_tax = calc_marginal_tax (max 0 (g - 22500)) fed_hoh\<rparr>
      else Inr \<lparr>standard_deduction = 15000, taxable_income = max 0 (g - 15000),
                federal_tax = calc_marginal_tax (max 0 (g - 15000)) fed_single\<rparr>)"
  by (simp add: estimate_federal_tax_2025_def FED_BRACKETS_2025_def
      FED_STANDARD_DEDUCTION_2025_def Let_def)

lemma estimate_federal_shape:
  "\<exists>ded bs. valid_table bs \<and>
     estimate_federal_tax_2025 g fs =
       Inr \<lparr>standard_deduction = ded, taxable_income = max 0 (g - ded),
            federal_tax = calc_marginal_tax (max 0 (g - ded)) bs\<rparr> \<and> 0 \<le> ded"
  using fed_single_valid fed_mfj_valid fed_hoh_valid
  by (auto simp add: estimate_federal_cases)

lemma estimate_state_shape:
  "\<exists>bs. valid_table bs \<and>
     estimate_state_tax_2025_single g sc =
       \<lparr>state_taxable_income = max 0 g, state_tax = calc_marginal_tax (max 0 g) bs\<rparr>"
proof (cases "map_of STATE_BRACKETS_2025_SINGLE (py_upper sc)")
  case None
  then show ?thesis using no_tax_valid
    by (auto simp add: estimate_state_tax_2025_single_def Let_def no_tax_def)
next
  case (Some bs)
  then have "bs = state_ca \<or> bs = state_ny \<or> bs = no_tax"
    by (auto simp add: STATE_BRACKETS_2025_SINGLE_def split: if_splits)
  then have "valid_table bs" using state_ca_valid state_ny_valid no_tax_valid by auto
  then show ?thesis using Some
    by (auto simp add: estimate_state_tax_2025_single_def Let_def)
qed

lemma py_lower_single: "py_lower ''single'' = ''single''"
  by (simp add: py_lower_def lower_char_def)



text \<open>
  C4. For every gross income and every filing status string, the federal estimator
  matches the status case-insensitively against single, mfj and hoh and falls back to
  single otherwise; the taxable income is \<open>max 0 (gross - deduction)\<close> with that status's
  standard deduction, and the federal tax is the marginal calculator on that taxable
  income with that status's table. A gross income of 60000 with status single gives the
  deduction 15000, the taxable income 45000 and the tax 5161.50.
\<close>

theorem estimate_federal_tax_2025_contract:
  "estimate_federal_tax_2025 g fs =
     (if py_lower fs = ''mfj''
      then Inr \<lparr>standard_deduction = 30000, taxable_income = max 0 (g - 30000),
                federal_tax = calc_marginal_tax (max 0 (g - 30000)) fed_mfj\<rparr>
      else if py_lower fs = ''hoh''
      then Inr \<lparr>standard_deduction = 22500, taxable_income = max 0 (g - 22500),
                federal_tax = calc_marginal_tax (max 0 (g - 22500)) fed_hoh\<rparr>
      else Inr \<lparr>standard_deduction = 15000, taxable_income = max 0 (g - 15000),
                federal_tax = calc_marginal_tax (max 0 (g - 15000)) fed_single\<rparr>) \<and>
   estimate_federal_tax_2025 60000 ''single'' =
     Inr \<lparr>standard_deduction = 15000, taxable_income = 45000, federal_tax = 5161.50\<rparr>"
proof -
  have "calc_marginal_tax 45000 fed_single = 5161.50"
    by (simp add: calc_marginal_tax_def fed_single_def)
  then have "estimate_federal_tax_2025 60000 ''single'' =
     Inr \<lparr>standard_deduction = 15000, taxable_income = 45000, federal_tax = 5161.50\<rparr>"
    by (simp add: estimate_federal_cases py_lower_single)
  then show ?thesis using estimate_federal_cases[of g fs] by simp
qed

theorem estimate_federal_tax_2025_contract_witness:
  "estimate_federal_tax_2025 100000 ''MFJ'' =
     Inr \<lparr>standard_deduction = 30000, taxable_income = 70000, federal_tax = 7923\<rparr> \<and>
   estimate_federal_tax_2025 100000 ''widow'' =
     Inr \<lparr>standard_deduction = 15000, taxable_income = 85000, federal_tax = 13614\<rparr>"
proof -
  have l: "py_lower ''MFJ'' = ''mfj''" "py_lower ''widow'' = ''widow''"
    by (simp_all add: py_lower_def lower_char_def)
  have c: "calc_marginal_tax 70000 fed_mfj = 7923" "calc_marginal_tax 85000 fed_single = 13614"
    by (simp_all add: calc_marginal_tax_def fed_mfj_def fed_single_def)
  show ?thesis
    using estimate_federal_tax_2025_contract[of 100000 "''MFJ''"]
      estimate_federal_tax_2025_contract[of 100000 "''widow''"]
    by (simp add: l c)
qed

text \<open>
  C5. For every gross income and every state code that does not match CA, NY, WA or FL
  case-insensitively, the state estimator falls back to the single infinite bracket of
  rate zero: the state tax is \<open>0\<close> and the state taxable income is \<open>max 0 gross\<close>. The
  marginal calculator on the table \<open>[(inf, 0.0)]\<close> returns \<open>0\<close> for every income.
\<close>

theorem estimate_state_unsupported_zero:
  assumes "py_upper sc \<notin> {''CA'', ''NY'', ''WA'', ''FL''}"
  shows "estimate_state_tax_2025_single g sc =
           \<lparr>state_taxable_income = max 0 g, state_tax = 0\<rparr> \<and>
         calc_marginal_tax x [(PInf, 0.0)] = 0"
proof -
  have "map_of STATE_BRACKETS_2025_SINGLE (py_upper sc) = None"
    using assms by (simp add: STATE_BRACKETS_2025_SINGLE_def)
  then have "estimate_state_tax_2025_single g sc =
           \<lparr>state_taxable_income = max 0 g, state_tax = 0\<rparr>"
    by (simp add: estimate_state_tax_2025_single_def Let_def calc_marginal_tax_def
        tax_loop_done)
  moreover have "calc_marginal_tax x [(PInf, 0.0)] = 0"
    by (simp add: calc_marginal_tax_def)
  ultimately show ?thesis by simp
qed

theorem estimate_state_unsupported_zero_witness:
  "py_upper ''tx'' \<notin> {''CA'', ''NY'', ''WA'', ''FL''} \<and>
   estimate_state_tax_2025_single 60000 ''tx'' =
     \<lparr>state_taxable_income = 60000, state_tax = 0\<rparr> \<and>
   calc_marginal_tax 60000 [(PInf, 0.0)] = 0"
proof -
  have h: "py_upper ''tx'' \<notin> {''CA'', ''NY'', ''WA'', ''FL''}"
    by (simp add: py_upper_def upper_char_def)
  show ?thesis using h estimate_state_unsupported_zero[OF h, of 60000 60000] by simp
qed

section \<open>The estimate\<close>

lemma estimate_total:
  "\<exists>r. estimate g fs sc = Inr r \<and> gross_annual r = g \<and> filing_status r = fs \<and> state r = sc \<and>
     0 \<le> federal_tax (federal r) \<and> 0 \<le> state_tax (state_detail r) \<and>
     0 \<le> total_tax r \<and> 0 \<le> net_annual r \<and>
     state_detail r = estimate_state_tax_2025_single g sc \<and>
     (g < 0 \<longrightarrow> taxable_income (federal r) = 0 \<and> state_taxable_income (state_detail r) = 0 \<and>
        federal_tax (federal r) = 0 \<and> state_tax (state_detail r) = 0 \<and>
        total_tax r = 0 \<and> net_annual r = 0)"
proof -
  obtain ded fb where fb: "valid_table fb" and ded: "0 \<le> ded"
    and fed: "estimate_federal_tax_2025 g fs =
       Inr \<lparr>standard_deduction = ded, taxable_income = max 0 (g - ded),
            federal_tax = calc_marginal_tax (max 0 (g - ded)) fb\<rparr>"
    using estimate_federal_shape[of g fs] by blast
  obtain sb where sb: "valid_table sb"
    and st: "estimate_state_tax_2025_single g sc =
       \<lparr>state_taxable_income = max 0 g, state_tax = calc_marginal_tax (max 0 g) sb\<rparr>"
    using estimate_state_shape[of g sc] by blast
  have f0: "0 \<le> calc_marginal_tax (max 0 (g - ded)) fb" using fb by (rule calc_nonneg)
  have s0: "0 \<le> calc_marginal_tax (max 0 g) sb" using sb by (rule calc_nonneg)
  have fz: "g < 0 \<Longrightarrow> calc_marginal_tax (max 0 (g - ded)) fb = 0"
    using ded by (intro calc_zero[OF fb]) simp
  have sz: "g < 0 \<Longrightarrow> calc_marginal_tax (max 0 g) sb = 0"
    by (intro calc_zero[OF sb]) simp
  show ?thesis
    using f0 s0 fz sz ded by (simp add: estimate_def fed st Let_def)
qed


lemma py_or_falsy: "\<not> truthy body \<Longrightarrow> py_or body (JObj []) = JObj []"
  by (simp add: py_or_def)

lemma api_estimate_is_estimate:
  assumes "api_estimate pf body = Inr r"
  shows "\<exists>g fs sc. estimate g fs sc = Inr r"
  using assms unfolding api_estimate_def Let_def
  by (auto split: sum.splits)

text \<open>
  C7. For every negative gross income the estimate has federal taxable income \<open>0\<close>, state
  taxable income \<open>0\<close>, federal tax and state tax \<open>0\<close>, total tax \<open>0\<close> and net annual income
  \<open>0\<close>; and no input produces a negative tax or a negative net annual income, neither
  for the three values of the estimate nor for any request the route answers.
\<close>

theorem estimate_clamped_never_negative:
  "(\<exists>r. estimate g fs sc = Inr r \<and>
      0 \<le> federal_tax (federal r) \<and> 0 \<le> state_tax (state_detail r) \<and>
      0 \<le> total_tax r \<and> 0 \<le> net_annual r \<and>
      (g < 0 \<longrightarrow> taxable_income (federal r) = 0 \<and> state_taxable_income (state_detail r) = 0 \<and>
         federal_tax (federal r) = 0 \<and> state_tax (state_detail r) = 0 \<and>
         total_tax r = 0 \<and> net_annual r = 0)) \<and>
   (\<forall>r. api_estimate pf body = Inr r \<longrightarrow>
      0 \<le> federal_tax (federal r) \<and> 0 \<le> state_tax (state_detail r) \<and>
      0 \<le> total_tax r \<and> 0 \<le> net_annual r \<and>
      (gross_annual r < 0 \<longrightarrow>
         taxable_income (federal r) = 0 \<and> state_taxable_income (state_detail r) = 0 \<and>
         federal_tax (federal r) = 0 \<and> state_tax (state_detail r) = 0 \<and>
         total_tax r = 0 \<and> net_annual r = 0))"
proof (intro conjI allI impI)
  show "\<exists>r. estimate g fs sc = Inr r \<and>
      0 \<le> federal_tax (federal r) \<and> 0 \<le> state_tax (state_detail r) \<and>
      0 \<le> total_tax r \<and> 0 \<le> net_annual r \<and>
      (g < 0 \<longrightarrow> taxable_income (federal r) = 0 \<and> state_taxable_income (state_detail r) = 0 \<and>
         federal_tax (federal r) = 0 \<and> state_tax (state_detail r) = 0 \<and>
         total_tax r = 0 \<and> net_annual r = 0)"
    using estimate_total[of g fs sc] by blast
next
  fix r
  assume "api_estimate pf body = Inr r"
  then obtain g' fs' sc' where e: "estimate g' fs' sc' = Inr r"
    using api_estimate_is_estimate by blast
  have all: "gross_annual r = g' \<and>
     0 \<le> federal_tax (federal r) \<and> 0 \<le> state_tax (state_detail r) \<and>
     0 \<le> total_tax r \<and> 0 \<le> net_annual r \<and>
     (g' < 0 \<longrightarrow> taxable_income (federal r) = 0 \<and> state_taxable_income (state_detail r) = 0 \<and>
        federal_tax (federal r) = 0 \<and> state_tax (state_detail r) = 0 \<and>
        total_tax r = 0 \<and> net_annual r = 0)"
    using estimate_total[of g' fs' sc'] e by auto
  show "0 \<le> federal_tax (federal r)" "0 \<le> state_tax (state_detail r)"
    "0 \<le> total_tax r" "0 \<le> net_annual r"
    using all by simp_all
  assume "gross_annual r < 0"
  then show "taxable_income (federal r) = 0" "state_taxable_income (state_detail r) = 0"
    "federal_tax (federal r) = 0" "state_tax (state_detail r) = 0"
    "total_tax r = 0" "net_annual r = 0"
    using all by simp_all
qed

theorem estimate_clamped_never_negative_witness:
  "\<exists>r. api_estimate unparsed
          (JObj [(''gross_annual'', JNum (- 5000)), (''state'', JStr ''ca'')]) = Inr r \<and>
        estimate (- 5000) ''single'' ''CA'' = Inr r \<and>
        gross_annual r < 0 \<and>
        taxable_income (federal r) = 0 \<and> state_taxable_income (state_detail r) = 0 \<and>
        federal_tax (federal r) = 0 \<and> state_tax (state_detail r) = 0 \<and>
        total_tax r = 0 \<and> net_annual r = 0"
proof -
  have run: "api_estimate unparsed
          (JObj [(''gross_annual'', JNum (- 5000)), (''state'', JStr ''ca'')]) =
        estimate (- 5000) ''single'' ''CA''"
    by (simp add: api_estimate_def py_or_def Let_def py_lower_def lower_char_def
        py_upper_def upper_char_def)
  obtain r where r: "estimate (- 5000) ''single'' ''CA'' = Inr r"
    and z: "(- 5000 :: real) < 0 \<longrightarrow>
         taxable_income (federal r) = 0 \<and> state_taxable_income (state_detail r) = 0 \<and>
         federal_tax (federal r) = 0 \<and> state_tax (state_detail r) = 0 \<and>
         total_tax r = 0 \<and> net_annual r = 0"
    using estimate_clamped_never_negative[of "- 5000" "''single''" "''CA''" unparsed JNull]
    by blast
  have g: "gross_annual r = - 5000"
    using r by (auto simp add: estimate_def Let_def split: sum.splits)
  show ?thesis using run r z g by auto
qed

section \<open>The estimate route on arbitrary payloads\<close>








section \<open>Saving and editing net income entries\<close>











lemma update_latest_absent_file:
  "api_update_latest_net_income env body None =
     (Inr (EntryError 400 ''No net income entry to edit.''),
      Some \<lparr>net_income_entries = Some [], activity = Some []\<rparr>)"
  by (simp add: api_update_latest_net_income_def load_data_def Let_def)











end
